theory Spec2Isabelle
  imports Main
begin

section \<open>Data model\<close>

text \<open>
  The script exists in two revisions: the controller with conflict support
  (\<^verbatim>\<open>src/unnamed/part_000\<close>) and a basic one (\<^verbatim>\<open>src/static/script.js\<close>).
  Functions of the first keep their source names; functions of the second carry the
  suffix \<open>_basic\<close>.

  A timestamp is the time value of \<^verbatim>\<open>new Date(s)\<close>: milliseconds since the epoch, or
  \<open>None\<close> for an Invalid Date (whose time value is NaN). The cost of a leg is a
  JavaScript Number; its arithmetic is left abstract (any type with \<open>+\<close> and \<open>0\<close>), and
  the formatting of a Number is kept symbolic.
\<close>

type_synonym instant = "int option"

record 'n leg =
  flight_number :: string
  airline :: string
  aircraft :: string
  destination :: string
  departure_utc :: instant
  arrival_utc :: instant
  cost :: 'n

text \<open>A criterion's outcome; \<open>path\<close> is \<open>None\<close> when the JSON object has no such property.\<close>

record 'n route_result =
  status :: string
  path :: "'n leg list option"

text \<open>
  A parsed JSON object, in the order \<^verbatim>\<open>Object.entries\<close> enumerates it. The keys of a
  parsed object are distinct.
\<close>

type_synonym 'n result_set = "(string \<times> 'n route_result) list"

text \<open>
  The lookup tables \<^verbatim>\<open>airlineNames\<close>, \<^verbatim>\<open>airportNames\<close> and \<^verbatim>\<open>airportCoordinates\<close> are
  globals defined outside the two scripts; they are a parameter of the model.
\<close>

record 'c tables =
  airlineNames :: "string \<rightharpoonup> string"
  airportNames :: "string \<rightharpoonup> string"
  airportCoordinates :: "string \<rightharpoonup> 'c"

text \<open>\<^verbatim>\<open>table[key] || fallback\<close>: a missing entry and an empty name both give the fallback.\<close>

definition or_else :: "string option \<Rightarrow> string \<Rightarrow> string" where
  "or_else v d = (case v of None \<Rightarrow> d | Some s \<Rightarrow> if s = [] then d else s)"

text \<open>\<^verbatim>\<open>arr - dep\<close> on two Dates: NaN as soon as one of them is invalid.\<close>

definition elapsed :: "instant \<Rightarrow> instant \<Rightarrow> instant" where
  "elapsed arr dep =
     (case arr of None \<Rightarrow> None
      | Some a \<Rightarrow> (case dep of None \<Rightarrow> None | Some d \<Rightarrow> Some (a - d)))"

text \<open>
  \<^verbatim>\<open>duration < 0\<close>, where \<open>duration\<close> is the difference in milliseconds divided by
  3600000: the quotient has the sign of the difference, and NaN is not below zero.
\<close>

definition negative :: "instant \<Rightarrow> bool" where
  "negative d = (case d of None \<Rightarrow> False | Some ms \<Rightarrow> ms < 0)"

text \<open>How a Number is printed: \<^verbatim>\<open>x.toFixed(k)\<close> or the plain \<^verbatim>\<open>${x}\<close>.\<close>

datatype 'n shown = ToFixed nat 'n | ToString 'n

subsection \<open>The map\<close>

datatype popup_kind = Origin | Destination | Layover

text \<open>
  What the route layer holds: a marker with its position and popup (kind, airport name
  when the script resolves it, airport code), or the connecting polyline.
\<close>

datatype 'c layer =
  Marker 'c popup_kind "string option" string
| Polyline "'c list"

text \<open>
  The view frame of the map: as set at load time, or fitted to the padded bounds of a
  list of points.
\<close>

datatype 'c view_frame = InitialView | FitBounds "'c list"

subsection \<open>The rendered panes\<close>

record airline_html =
  airline_code :: string
  airline_title :: string

text \<open>
  The markup of a pane as a list of fragments, one per template literal appended to
  \<^verbatim>\<open>content\<close>. Durations are kept in milliseconds; their split into hours and minutes
  happens when the text is written.
\<close>

datatype 'n fragment =
  RouteError
| NoRoute
| Aggregate "'n shown" instant int
| ErrorLeg airline_html string
| LegEntry airline_html string "'n shown" string string string string
    instant instant instant string
| NoRoute_basic
| Aggregate_basic "'n shown" instant
| LegEntry_basic airline_html string string string

subsection \<open>Conflict data\<close>

record conflict =
  flight :: string
  reason :: string

record validation =
  conflicts_detected :: bool
  conflicted_flights :: "conflict list"

text \<open>The warning banner: the count it prints and its badges.\<close>

record banner =
  banner_count :: nat
  banner_badges :: "string list"

record conflict_breakdown =
  aircraft_conflicts :: int
  runway_conflicts :: int
  gate_conflicts :: int
  positioning_conflicts :: int

record summary =
  total_flights :: int
  successful :: int
  failed :: int
  breakdown :: conflict_breakdown

record conflict_report =
  report_summary :: summary
  failed_flights :: "string list"
  conflicts :: "string list"

text \<open>
  The markup of the conflict-report panel: the statistics cards and the breakdown list
  print the summary's numbers; then the heading's total, the badges, the
  \<^verbatim>\<open>+N more\<close> indicator and the conflict items.
\<close>

record collision_html =
  stats :: summary
  heading_total :: nat
  badges :: "string list"
  more_indicator :: "nat option"
  conflict_items :: "string list"

subsection \<open>The view\<close>

datatype error = TypeError | HttpError nat | NetworkError string

datatype alert = NoRoutesFound string string | CouldNotFetch error

text \<open>
  The mutable state of the page: the \<^verbatim>\<open>hidden\<close> class of the spinner and of the two
  panels, the warning banners among the children of \<^verbatim>\<open>#results-tabs\<close> (document order),
  the \<^verbatim>\<open>innerHTML\<close> of the elements found by id, the \<^verbatim>\<open>data-tab\<close> values of the tab
  buttons, the tab carrying the class \<^verbatim>\<open>active\<close>, the route layer and the frame of the
  map, the variable \<^verbatim>\<open>currentResults\<close>, the upper-cased values of the two airport
  inputs, and the alerts shown so far (newest last).
\<close>

record ('n, 'c) view =
  spinnerHidden :: bool
  resultsHidden :: bool
  collisionHidden :: bool
  warnings :: "banner list"
  panes :: "string \<rightharpoonup> 'n fragment list"
  tabButtons :: "string list"
  activeTab :: "string option"
  routeLayer :: "'c layer list"
  mapFrame :: "'c view_frame"
  currentResults :: "'n result_set"
  startAirport :: string
  endAirport :: string
  alerts :: "alert list"

section \<open>Map Route Renderer\<close>

text \<open>\<^verbatim>\<open>[airportCoordinates[startNode], ...path.map(leg => airportCoordinates[leg.destination])]\<close>\<close>

definition route_points :: "'c tables \<Rightarrow> string \<Rightarrow> 'n leg list \<Rightarrow> 'c option list" where
  "route_points tb startNode p =
     airportCoordinates tb startNode # map (\<lambda>l. airportCoordinates tb (destination l)) p"

definition popup_kind_at :: "nat \<Rightarrow> nat \<Rightarrow> popup_kind" where
  "popup_kind_at n index =
     (if index = 0 then Origin else if index = n - 1 then Destination else Layover)"

definition airport_code_at :: "string \<Rightarrow> 'n leg list \<Rightarrow> nat \<Rightarrow> string" where
  "airport_code_at startNode p index =
     (if index = 0 then startNode else destination (p ! (index - 1)))"

text \<open>The body of \<^verbatim>\<open>points.forEach\<close>: the layers one point adds (\<open>n\<close> is \<^verbatim>\<open>points.length\<close>).\<close>

definition place_marker ::
  "'c tables \<Rightarrow> string \<Rightarrow> 'n leg list \<Rightarrow> nat \<Rightarrow> nat \<times> 'c option \<Rightarrow> 'c layer list" where
  "place_marker tb startNode p n ip =
     (case snd ip of
        None \<Rightarrow> []
      | Some c \<Rightarrow>
          (let airportCode = airport_code_at startNode p (fst ip);
               airportName = or_else (airportNames tb airportCode) airportCode
           in [Marker c (popup_kind_at n (fst ip)) (Some airportName) airportCode]))"

definition place_marker_basic ::
  "string \<Rightarrow> 'n leg list \<Rightarrow> nat \<Rightarrow> nat \<times> 'c option \<Rightarrow> 'c layer list" where
  "place_marker_basic startNode p n ip =
     (case snd ip of
        None \<Rightarrow> []
      | Some c \<Rightarrow>
          (let airportCode = airport_code_at startNode p (fst ip)
           in [Marker c (popup_kind_at n (fst ip)) None airportCode]))"

text \<open>\<^verbatim>\<open>points.filter(p => p)\<close>\<close>

definition resolved :: "'c option list \<Rightarrow> 'c list" where
  "resolved points = List.map_filter (\<lambda>p. p) points"

text \<open>
  \<^verbatim>\<open>if (polyline.getBounds().isValid()) map.fitBounds(...)\<close>: the bounds of a polyline
  are valid when it has a point.
\<close>

definition fit :: "'c list \<Rightarrow> 'c view_frame \<Rightarrow> 'c view_frame" where
  "fit pts frame = (if pts = [] then frame else FitBounds pts)"

definition drawMapRoute ::
  "'c tables \<Rightarrow> 'n leg list option \<Rightarrow> string \<Rightarrow> ('n, 'c) view \<Rightarrow> ('n, 'c) view" where
  "drawMapRoute tb pth startNode v =
     (let v1 = v\<lparr>routeLayer := []\<rparr> in
      case pth of
        None \<Rightarrow> v1
      | Some p \<Rightarrow>
          (case airportCoordinates tb startNode of
             None \<Rightarrow> v1
           | Some c0 \<Rightarrow>
               (let points = route_points tb startNode p;
                    markers = concat (map (place_marker tb startNode p (length points))
                                        (enumerate 0 points));
                    line = resolved points
                in v1\<lparr>routeLayer := markers @ [Polyline line],
                       mapFrame := fit line (mapFrame v1)\<rparr>)))"

definition drawMapRoute_basic ::
  "'c tables \<Rightarrow> 'n leg list option \<Rightarrow> string \<Rightarrow> ('n, 'c) view \<Rightarrow> ('n, 'c) view" where
  "drawMapRoute_basic tb pth startNode v =
     (let v1 = v\<lparr>routeLayer := []\<rparr> in
      case pth of
        None \<Rightarrow> v1
      | Some p \<Rightarrow>
          (case airportCoordinates tb startNode of
             None \<Rightarrow> v1
           | Some c0 \<Rightarrow>
               (let points = route_points tb startNode p;
                    markers = concat (map (place_marker_basic startNode p (length points))
                                        (enumerate 0 points));
                    line = resolved points
                in v1\<lparr>routeLayer := markers @ [Polyline line],
                       mapFrame := fit line (mapFrame v1)\<rparr>)))"

section \<open>Conflict report panel\<close>

text \<open>The markup \<^verbatim>\<open>displayCollisionData\<close> assigns to \<^verbatim>\<open>#collision-data\<close>.\<close>

definition displayCollisionData :: "conflict_report \<Rightarrow> collision_html" where
  "displayCollisionData data =
     \<lparr>stats = report_summary data,
      heading_total = length (failed_flights data),
      badges = take 20 (failed_flights data),
      more_indicator =
        (if length (failed_flights data) > 20
         then Some (length (failed_flights data) - 20) else None),
      conflict_items = take 10 (conflicts data)\<rparr>"

section \<open>Result Formatter\<close>

text \<open>\<^verbatim>\<open>result.path.reduce((acc, leg) => acc + leg.cost, 0)\<close>\<close>

definition totalCost :: "('n::{plus,zero}) leg list \<Rightarrow> 'n" where
  "totalCost p = foldl (\<lambda>acc l. acc + cost l) 0 p"

text \<open>The body of \<^verbatim>\<open>result.path.forEach\<close> in the controller with conflict support.\<close>

definition leg_entry :: "'c tables \<Rightarrow> string \<Rightarrow> 'n leg list \<Rightarrow> nat \<times> 'n leg \<Rightarrow> 'n fragment" where
  "leg_entry tb startNode p il =
     (let index = fst il; l = snd il;
          airlineName = or_else (airlineNames tb (airline l)) ''Unknown Airline'';
          airlineHTML = \<lparr>airline_code = airline l, airline_title = airlineName\<rparr>;
          origin = (if index = 0 then startNode else destination (p ! (index - 1)));
          originName = or_else (airportNames tb origin) origin;
          destName = or_else (airportNames tb (destination l)) (destination l);
          depTime = departure_utc l;
          arrTime = arrival_utc l;
          duration = elapsed arrTime depTime
      in if negative duration then ErrorLeg airlineHTML (flight_number l)
         else LegEntry airlineHTML (flight_number l) (ToString (cost l))
                originName origin destName (destination l) depTime arrTime duration
                (aircraft l))"

text \<open>
  The markup computed for one entry of the result set. Reading \<^verbatim>\<open>result.path.reduce\<close>
  without a path, or \<^verbatim>\<open>lastLeg.arrival_utc\<close> of an empty path, throws a TypeError.
\<close>

definition pane_content ::
  "'c tables \<Rightarrow> string \<Rightarrow> ('n::{plus,zero}) route_result \<Rightarrow> error + 'n fragment list" where
  "pane_content tb startNode result =
     (if status result = ''found'' then
        (case path result of
           None \<Rightarrow> Inl TypeError
         | Some p \<Rightarrow>
             if p = [] then Inl TypeError
             else
               (let total = totalCost p;
                    firstLeg = hd p;
                    lastLeg = last p;
                    totalDuration = elapsed (arrival_utc lastLeg) (departure_utc firstLeg)
                in if negative totalDuration then Inr [RouteError]
                   else Inr (Aggregate (ToFixed 2 total) totalDuration (int (length p) - 1)
                             # map (leg_entry tb startNode p) (enumerate 0 p))))
      else Inr [NoRoute])"

text \<open>
  The loop over \<^verbatim>\<open>Object.entries(results)\<close>: each pane is written as soon as its markup
  is ready, so the panes written before an exception stay written. Assigning to the
  \<^verbatim>\<open>innerHTML\<close> of a missing element throws a TypeError.
\<close>

fun render_panes ::
  "'c tables \<Rightarrow> string \<Rightarrow> ('n::{plus,zero}) result_set \<Rightarrow> ('n, 'c) view
     \<Rightarrow> ('n, 'c) view \<times> error option" where
  "render_panes tb startNode [] v = (v, None)"
| "render_panes tb startNode (tr # rest) v =
     (case pane_content tb startNode (snd tr) of
        Inl e \<Rightarrow> (v, Some e)
      | Inr content \<Rightarrow>
          (case panes v (fst tr) of
             None \<Rightarrow> (v, Some TypeError)
           | Some old \<Rightarrow>
               render_panes tb startNode rest (v\<lparr>panes := (panes v)(fst tr \<mapsto> content)\<rparr>)))"

text \<open>\<^verbatim>\<open>currentResults[tabId]?.path\<close>\<close>

definition path_of :: "'n result_set \<Rightarrow> string \<Rightarrow> 'n leg list option" where
  "path_of results tabId = (case map_of results tabId of None \<Rightarrow> None | Some r \<Rightarrow> path r)"

text \<open>The click handler of the tab button whose \<^verbatim>\<open>data-tab\<close> is \<open>tabId\<close>.\<close>

definition tab_click :: "'c tables \<Rightarrow> string \<Rightarrow> ('n, 'c) view \<Rightarrow> ('n, 'c) view" where
  "tab_click tb tabId v =
     (let v1 = v\<lparr>activeTab := Some tabId\<rparr>;
          startNode = startAirport v1
      in drawMapRoute tb (path_of (currentResults v1) tabId) startNode v1)"

text \<open>
  \<^verbatim>\<open>document.querySelector('.tab-btn[data-tab="cheapest"]').click()\<close> throws a TypeError
  when the page has no such button.
\<close>

definition displayAllResults ::
  "'c tables \<Rightarrow> ('n::{plus,zero}) result_set \<Rightarrow> string \<Rightarrow> ('n, 'c) view
     \<Rightarrow> ('n, 'c) view \<times> error option" where
  "displayAllResults tb results startNode v =
     (case render_panes tb startNode results v of
        (v1, Some e) \<Rightarrow> (v1, Some e)
      | (v1, None) \<Rightarrow>
          if ''cheapest'' \<in> set (tabButtons v1) then (tab_click tb ''cheapest'' v1, None)
          else (v1, Some TypeError))"

subsection \<open>The basic script\<close>

definition leg_entry_basic ::
  "'c tables \<Rightarrow> string \<Rightarrow> 'n leg list \<Rightarrow> nat \<times> 'n leg \<Rightarrow> 'n fragment" where
  "leg_entry_basic tb startNode p il =
     (let index = fst il; l = snd il;
          airlineName = or_else (airlineNames tb (airline l)) ''Unknown Airline'';
          airlineHTML = \<lparr>airline_code = airline l, airline_title = airlineName\<rparr>;
          origin = (if index = 0 then startNode else destination (p ! (index - 1)))
      in LegEntry_basic airlineHTML (flight_number l) origin (destination l))"

definition pane_content_basic ::
  "'c tables \<Rightarrow> string \<Rightarrow> ('n::{plus,zero}) route_result \<Rightarrow> error + 'n fragment list" where
  "pane_content_basic tb startNode result =
     (if status result = ''found'' then
        (case path result of
           None \<Rightarrow> Inl TypeError
         | Some p \<Rightarrow>
             if p = [] then Inl TypeError
             else
               (let total = totalCost p;
                    firstLeg = hd p;
                    lastLeg = last p;
                    totalDuration = elapsed (arrival_utc lastLeg) (departure_utc firstLeg)
                in Inr (Aggregate_basic (ToFixed 2 total) totalDuration
                        # map (leg_entry_basic tb startNode p) (enumerate 0 p))))
      else Inr [NoRoute_basic])"

fun render_panes_basic ::
  "'c tables \<Rightarrow> string \<Rightarrow> ('n::{plus,zero}) result_set \<Rightarrow> ('n, 'c) view
     \<Rightarrow> ('n, 'c) view \<times> error option" where
  "render_panes_basic tb startNode [] v = (v, None)"
| "render_panes_basic tb startNode (tr # rest) v =
     (case pane_content_basic tb startNode (snd tr) of
        Inl e \<Rightarrow> (v, Some e)
      | Inr content \<Rightarrow>
          (case panes v (fst tr) of
             None \<Rightarrow> (v, Some TypeError)
           | Some old \<Rightarrow>
               render_panes_basic tb startNode rest
                 (v\<lparr>panes := (panes v)(fst tr \<mapsto> content)\<rparr>)))"

definition tab_click_basic :: "'c tables \<Rightarrow> string \<Rightarrow> ('n, 'c) view \<Rightarrow> ('n, 'c) view" where
  "tab_click_basic tb tabId v =
     (let v1 = v\<lparr>activeTab := Some tabId\<rparr>;
          startNode = startAirport v1
      in drawMapRoute_basic tb (path_of (currentResults v1) tabId) startNode v1)"

definition displayAllResults_basic ::
  "'c tables \<Rightarrow> ('n::{plus,zero}) result_set \<Rightarrow> string \<Rightarrow> ('n, 'c) view
     \<Rightarrow> ('n, 'c) view \<times> error option" where
  "displayAllResults_basic tb results startNode v =
     (case render_panes_basic tb startNode results v of
        (v1, Some e) \<Rightarrow> (v1, Some e)
      | (v1, None) \<Rightarrow>
          if ''cheapest'' \<in> set (tabButtons v1)
          then (tab_click_basic tb ''cheapest'' v1, None)
          else (v1, Some TypeError))"

text \<open>What a pane shows as the origin of a leg, where it shows one.\<close>

fun displayed_origin :: "'n fragment \<Rightarrow> string option" where
  "displayed_origin (LegEntry a f c originName origin destName dest dep arr dur ac) = Some origin"
| "displayed_origin (LegEntry_basic a f origin dest) = Some origin"
| "displayed_origin other = None"

text \<open>The total cost on the aggregate line of a pane, where it has one.\<close>

fun displayed_total :: "'n fragment list \<Rightarrow> 'n shown option" where
  "displayed_total (Aggregate c d s # rest) = Some c"
| "displayed_total (Aggregate_basic c d # rest) = Some c"
| "displayed_total other = None"

section \<open>View State Controller\<close>

text \<open>
  The submit handler is an async function; it is split at its suspension points. Its
  first part runs at the submission, up to the route-search request. The request data
  it captures is \<^verbatim>\<open>{start, end}\<close>, read from the two inputs.
\<close>

definition submit :: "('n, 'c) view \<Rightarrow> ('n, 'c) view" where
  "submit v = v\<lparr>spinnerHidden := False, resultsHidden := True, collisionHidden := True,
                routeLayer := []\<rparr>"

definition submit_basic :: "('n, 'c) view \<Rightarrow> ('n, 'c) view" where
  "submit_basic v = v\<lparr>spinnerHidden := False, resultsHidden := True, routeLayer := []\<rparr>"

text \<open>
  The outcome of the route-search request: \<^verbatim>\<open>fetch\<close> or \<^verbatim>\<open>response.json()\<close> threw, the
  status was not 2xx, or a result set arrived.
\<close>

datatype 'n search_response =
  SearchFailed string
| SearchNotOk nat
| SearchOk "'n result_set"

datatype validation_response =
  ValidationFailed
| ValidationNotOk
| ValidationOk validation

definition show_alert :: "alert \<Rightarrow> ('n, 'c) view \<Rightarrow> ('n, 'c) view" where
  "show_alert a v = v\<lparr>alerts := alerts v @ [a]\<rparr>"

text \<open>The \<^verbatim>\<open>finally\<close> block of the submit handler.\<close>

definition finish :: "('n, 'c) view \<Rightarrow> ('n, 'c) view" where
  "finish v = v\<lparr>spinnerHidden := True\<rparr>"

text \<open>\<^verbatim>\<open>Object.values(currentResults).some(result => result.status === 'found')\<close>\<close>

definition hasAnyRoute :: "'n result_set \<Rightarrow> bool" where
  "hasAnyRoute results = list_ex (\<lambda>tr. status (snd tr) = ''found'') results"

text \<open>A JavaScript Set keeps the first insertion of each value, in insertion order.\<close>

definition set_add :: "'a list \<Rightarrow> 'a \<Rightarrow> 'a list" where
  "set_add acc x = (if x \<in> set acc then acc else acc @ [x])"

text \<open>The first part of \<^verbatim>\<open>validateCurrentPath\<close>: the flight numbers it sends.\<close>

definition allFlightNumbers :: "'n result_set \<Rightarrow> string list" where
  "allFlightNumbers results =
     foldl set_add []
       (concat (map (\<lambda>type. case path_of results type of
                               None \<Rightarrow> []
                             | Some p \<Rightarrow> map flight_number p)
                    [''cheapest'', ''fastest'', ''best'']))"

definition showCollisionWarning :: "conflict list \<Rightarrow> ('n, 'c) view \<Rightarrow> ('n, 'c) view" where
  "showCollisionWarning cs v =
     v\<lparr>warnings := \<lparr>banner_count = length cs, banner_badges = map flight cs\<rparr> # warnings v\<rparr>"

text \<open>
  The second part of the submit handler runs when the route-search request settles;
  \<open>start\<close> and \<open>dest\<close> are the request data captured at the submission. It ends either
  in the \<^verbatim>\<open>finally\<close> block or at the conflict-validation request, whose flight numbers
  it then returns.
\<close>

definition on_search_response ::
  "'c tables \<Rightarrow> string \<Rightarrow> string \<Rightarrow> ('n::{plus,zero}) search_response \<Rightarrow> ('n, 'c) view
     \<Rightarrow> ('n, 'c) view \<times> string list option" where
  "on_search_response tb start dest resp v =
     (case resp of
        SearchFailed msg \<Rightarrow> (finish (show_alert (CouldNotFetch (NetworkError msg)) v), None)
      | SearchNotOk code \<Rightarrow> (finish (show_alert (CouldNotFetch (HttpError code)) v), None)
      | SearchOk results \<Rightarrow>
          (let v1 = v\<lparr>currentResults := results\<rparr> in
           if \<not> hasAnyRoute results
           then (finish (show_alert (NoRoutesFound start dest) v1), None)
           else
             (case displayAllResults tb results start v1 of
                (v2, Some e) \<Rightarrow> (finish (show_alert (CouldNotFetch e) v2), None)
              | (v2, None) \<Rightarrow>
                  (let v3 = v2\<lparr>resultsHidden := False\<rparr>;
                       numbers = allFlightNumbers (currentResults v3)
                   in if numbers = [] then (finish v3, None) else (v3, Some numbers)))))"

text \<open>
  The last part runs when the conflict-validation request settles: the rest of
  \<^verbatim>\<open>validateCurrentPath\<close>, then the \<^verbatim>\<open>finally\<close> block. A failure is only logged.
\<close>

definition on_validation_response ::
  "validation_response \<Rightarrow> ('n, 'c) view \<Rightarrow> ('n, 'c) view" where
  "on_validation_response resp v =
     finish (case resp of
               ValidationOk val \<Rightarrow>
                 if conflicts_detected val then showCollisionWarning (conflicted_flights val) v
                 else v
             | ValidationNotOk \<Rightarrow> v
             | ValidationFailed \<Rightarrow> v)"

text \<open>The basic script has no guard on the result set and no validation request.\<close>

definition on_search_response_basic ::
  "'c tables \<Rightarrow> string \<Rightarrow> ('n::{plus,zero}) search_response \<Rightarrow> ('n, 'c) view
     \<Rightarrow> ('n, 'c) view" where
  "on_search_response_basic tb start resp v =
     (case resp of
        SearchFailed msg \<Rightarrow> finish (show_alert (CouldNotFetch (NetworkError msg)) v)
      | SearchNotOk code \<Rightarrow> finish (show_alert (CouldNotFetch (HttpError code)) v)
      | SearchOk results \<Rightarrow>
          (let v1 = v\<lparr>currentResults := results\<rparr> in
           case displayAllResults_basic tb results start v1 of
             (v2, Some e) \<Rightarrow> finish (show_alert (CouldNotFetch e) v2)
           | (v2, None) \<Rightarrow> finish (v2\<lparr>resultsHidden := False\<rparr>)))"

subsection \<open>Runs of the controller\<close>

text \<open>
  What can happen to the page. A response event carries what its continuation
  captured. The number on a validation response is the generation of the search that
  issued the request, counted as below; the script keeps no such token, so its handler
  never sees the number.
\<close>

datatype 'n event =
  Submit
| SearchResponse string string "'n search_response"
| ValidationResponse nat validation_response
| TabClick string

definition step ::
  "'c tables \<Rightarrow> ('n::{plus,zero}) event \<Rightarrow> ('n, 'c) view \<Rightarrow> ('n, 'c) view" where
  "step tb e v =
     (case e of
        Submit \<Rightarrow> submit v
      | SearchResponse start dest resp \<Rightarrow> fst (on_search_response tb start dest resp v)
      | ValidationResponse g resp \<Rightarrow> on_validation_response resp v
      | TabClick tabId \<Rightarrow> if tabId \<in> set (tabButtons v) then tab_click tb tabId v else v)"

definition run ::
  "'c tables \<Rightarrow> ('n::{plus,zero}) event list \<Rightarrow> ('n, 'c) view \<Rightarrow> ('n, 'c) view" where
  "run tb es v = foldl (\<lambda>w e. step tb e w) v es"

text \<open>The generation of the view after a run: the number of searches submitted so far.\<close>

fun generation :: "'n event list \<Rightarrow> nat" where
  "generation [] = 0"
| "generation (Submit # es) = Suc (generation es)"
| "generation (e # es) = generation es"

section \<open>Example data\<close>

text \<open>
  Modelled from the spec: the markup of the page is not among the sources. The page has
  one tab button and one pane for each of the criteria cheapest, fastest and best, and
  starts with everything hidden and nothing drawn.
\<close>

definition page :: "string \<Rightarrow> string \<Rightarrow> (int, int \<times> int) view" where
  "page start dest =
     \<lparr>spinnerHidden = True, resultsHidden = True, collisionHidden = True, warnings = [],
      panes = [''cheapest'' \<mapsto> [], ''fastest'' \<mapsto> [], ''best'' \<mapsto> []],
      tabButtons = [''cheapest'', ''fastest'', ''best''],
      activeTab = None, routeLayer = [], mapFrame = InitialView, currentResults = [],
      startAirport = start, endAirport = dest, alerts = []\<rparr>"

definition airports :: "(int \<times> int) tables" where
  "airports =
     \<lparr>airlineNames = [''AA'' \<mapsto> ''American Airlines''],
      airportNames = [''JFK'' \<mapsto> ''New York'', ''LAX'' \<mapsto> ''Los Angeles''],
      airportCoordinates = [''JFK'' \<mapsto> (40, -73), ''LAX'' \<mapsto> (33, -118)]\<rparr>"

definition example_leg :: "string \<Rightarrow> string \<Rightarrow> int \<Rightarrow> int \<Rightarrow> int \<Rightarrow> int leg" where
  "example_leg number dest dep arr price =
     \<lparr>flight_number = number, airline = ''AA'', aircraft = ''B738'', destination = dest,
      departure_utc = Some dep, arrival_utc = Some arr, cost = price\<rparr>"

definition found :: "int leg list \<Rightarrow> int route_result" where
  "found p = \<lparr>status = ''found'', path = Some p\<rparr>"

definition not_found :: "int route_result" where
  "not_found = \<lparr>status = ''not_found'', path = None\<rparr>"

text \<open>
  The total cost a pane shows on its aggregate line, where the pane exists and has
  one.
\<close>

definition pane_total :: "('n, 'c) view \<Rightarrow> string \<Rightarrow> 'n shown option" where
  "pane_total v t = (case panes v t of None \<Rightarrow> None | Some content \<Rightarrow> displayed_total content)"

subsection \<open>Routes, responses and runs used as examples\<close>

text \<open>
  A two-leg route whose first leg arrives before it departs, by way of an airport
  (ORD) that no table knows; a route through an airport without coordinates; the
  one-leg route of the example in the specification, arriving the day before it departs;
  and a one-leg route flown by AA100.
\<close>

definition two_legs :: "int leg list" where
  "two_legs = [example_leg ''AA1'' ''ORD'' 1000 500 100, example_leg ''AA2'' ''LAX'' 2000 5000 50]"

definition mid_missing :: "int leg list" where
  "mid_missing = [example_leg ''AA1'' ''XXX'' 0 10 100, example_leg ''AA2'' ''LAX'' 20 30 50]"

definition backwards :: "int leg list" where
  "backwards = [example_leg ''AA1'' ''LAX'' 1704189600000 1704096000000 200]"

definition aa100 :: "int leg list" where
  "aa100 = [example_leg ''AA100'' ''LAX'' 0 3600000 200]"

definition one_search :: "int result_set" where
  "one_search = [(''cheapest'', found two_legs)]"

definition no_cheapest :: "int result_set" where
  "no_cheapest = [(''fastest'', found aa100)]"

definition none_found :: "int result_set" where
  "none_found = [(''cheapest'', not_found), (''fastest'', not_found), (''best'', not_found)]"

definition gate_conflict :: validation_response where
  "gate_conflict = ValidationOk \<lparr>conflicts_detected = True,
     conflicted_flights = [\<lparr>flight = ''AA100'', reason = ''gate''\<rparr>]\<rparr>"

text \<open>
  Two runs: a second search submitted while the validation of the first is still
  pending, and a second search completed after the first was warned about.
\<close>

definition second_search :: "int event list" where
  "second_search =
     [Submit, SearchResponse ''JFK'' ''LAX'' (SearchOk [(''cheapest'', found aa100)]), Submit]"

definition warned_then_searched :: "int event list" where
  "warned_then_searched =
     [Submit, SearchResponse ''JFK'' ''LAX'' (SearchOk [(''cheapest'', found aa100)]),
      ValidationResponse 1 gate_conflict,
      Submit, SearchResponse ''JFK'' ''LAX'' (SearchOk [(''cheapest'', found two_legs)])]"

section \<open>Properties of the Map Route Renderer\<close>

lemma drawMapRoute_clears: "drawMapRoute tb pth s (v\<lparr>routeLayer := old\<rparr>) = drawMapRoute tb pth s v"
  by (simp add: drawMapRoute_def Let_def split: option.splits)

lemma drawMapRoute_basic_clears:
  "drawMapRoute_basic tb pth s (v\<lparr>routeLayer := old\<rparr>) = drawMapRoute_basic tb pth s v"
  by (simp add: drawMapRoute_basic_def Let_def split: option.splits)

lemma drawMapRoute_idem: "drawMapRoute tb pth s (drawMapRoute tb pth s v) = drawMapRoute tb pth s v"
  by (simp add: drawMapRoute_def Let_def fit_def split: option.splits)

lemma drawMapRoute_basic_idem: "drawMapRoute_basic tb pth s (drawMapRoute_basic tb pth s v) = drawMapRoute_basic tb pth s v"
  by (simp add: drawMapRoute_basic_def Let_def fit_def split: option.splits)

lemma drawMapRoute_fields:
  "panes (drawMapRoute tb pth s v) = panes v"
  "warnings (drawMapRoute tb pth s v) = warnings v"
  "activeTab (drawMapRoute tb pth s v) = activeTab v"
  "tabButtons (drawMapRoute tb pth s v) = tabButtons v"
  "currentResults (drawMapRoute tb pth s v) = currentResults v"
  "alerts (drawMapRoute tb pth s v) = alerts v"
  by (simp_all add: drawMapRoute_def Let_def split: option.splits)

lemma drawMapRoute_basic_fields:
  "panes (drawMapRoute_basic tb pth s v) = panes v"
  "warnings (drawMapRoute_basic tb pth s v) = warnings v"
  "activeTab (drawMapRoute_basic tb pth s v) = activeTab v"
  by (simp_all add: drawMapRoute_basic_def Let_def split: option.splits)

lemma drawMapRoute_layer_indep:
  "routeLayer (drawMapRoute tb pth s v) = routeLayer (drawMapRoute tb pth s w)"
  by (simp add: drawMapRoute_def Let_def split: option.splits)

lemma drawMapRoute_frame_indep:
  "mapFrame v = mapFrame w \<Longrightarrow> mapFrame (drawMapRoute tb pth s v) = mapFrame (drawMapRoute tb pth s w)"
  by (simp add: drawMapRoute_def Let_def split: option.splits)

lemma markers_by_index:
  "concat (map (\<lambda>ip. case snd ip of None \<Rightarrow> [] | Some c \<Rightarrow> [g (fst ip) c]) (enumerate n xs))
   = map (\<lambda>i. g i (the (xs ! (i - n)))) (filter (\<lambda>i. xs ! (i - n) \<noteq> None) [n..<n + length xs])"
proof (induction xs arbitrary: n)
  case Nil
  show ?case by simp
next
  case (Cons x xs)
  define rest where "rest = [Suc n..<Suc n + length xs]"
  have upt: "[n..<n + length (x # xs)] = n # rest"
  proof -
    have "[n..<n + length (x # xs)] = n # [Suc n..<n + length (x # xs)]"
      by (rule upt_conv_Cons) simp
    then show ?thesis by (simp add: rest_def)
  qed
  have shift: "(x # xs) ! (i - n) = xs ! (i - Suc n)" if "i \<in> set rest" for i
  proof -
    from that have "i - n = Suc (i - Suc n)" by (auto simp: rest_def)
    then show ?thesis by simp
  qed
  have f: "filter (\<lambda>i. (x # xs) ! (i - n) \<noteq> None) rest = filter (\<lambda>i. xs ! (i - Suc n) \<noteq> None) rest"
    by (rule filter_cong) (simp_all only: shift)
  have m: "map (\<lambda>i. g i (the ((x # xs) ! (i - n)))) (filter (\<lambda>i. xs ! (i - Suc n) \<noteq> None) rest)
          = map (\<lambda>i. g i (the (xs ! (i - Suc n)))) (filter (\<lambda>i. xs ! (i - Suc n) \<noteq> None) rest)"
    by (rule map_cong) (auto simp: shift)
  have ih: "concat (map (\<lambda>ip. case snd ip of None \<Rightarrow> [] | Some c \<Rightarrow> [g (fst ip) c]) (enumerate (Suc n) xs))
          = map (\<lambda>i. g i (the (xs ! (i - Suc n)))) (filter (\<lambda>i. xs ! (i - Suc n) \<noteq> None) rest)"
    unfolding rest_def by (rule Cons.IH)
  have tl: "map (\<lambda>i. g i (the ((x # xs) ! (i - n)))) (filter (\<lambda>i. (x # xs) ! (i - n) \<noteq> None) rest)
          = concat (map (\<lambda>ip. case snd ip of None \<Rightarrow> [] | Some c \<Rightarrow> [g (fst ip) c]) (enumerate (Suc n) xs))"
    by (simp only: f m ih)
  have "concat (map (\<lambda>ip. case snd ip of None \<Rightarrow> [] | Some c \<Rightarrow> [g (fst ip) c]) (enumerate n (x # xs)))
        = (case x of None \<Rightarrow> [] | Some c \<Rightarrow> [g n c])
          @ concat (map (\<lambda>ip. case snd ip of None \<Rightarrow> [] | Some c \<Rightarrow> [g (fst ip) c]) (enumerate (Suc n) xs))"
    by (cases x) simp_all
  also have "\<dots> = (case x of None \<Rightarrow> [] | Some c \<Rightarrow> [g n c])
          @ map (\<lambda>i. g i (the ((x # xs) ! (i - n)))) (filter (\<lambda>i. (x # xs) ! (i - n) \<noteq> None) rest)"
    by (simp only: tl)
  also have "\<dots> = map (\<lambda>i. g i (the ((x # xs) ! (i - n)))) (filter (\<lambda>i. (x # xs) ! (i - n) \<noteq> None) (n # rest))"
    by (cases x) simp_all
  finally show ?case
    unfolding upt .
qed

lemma resolved_by_index:
  "resolved xs = map (\<lambda>i. the (xs ! i)) (filter (\<lambda>i. xs ! i \<noteq> None) [0..<length xs])"
proof -
  have "List.map_filter (\<lambda>p. p) xs = concat (map (\<lambda>ip. case snd ip of None \<Rightarrow> [] | Some c \<Rightarrow> [c]) (enumerate 0 xs))"
    by (induction xs rule: rev_induct) (simp_all add: List.map_filter_def enumerate_append_eq split: option.splits)
  then show ?thesis
    using markers_by_index [of "\<lambda>i c. c" 0 xs] by (simp add: resolved_def)
qed

lemma place_marker_eq:
  "place_marker tb s p n =
     (\<lambda>ip. case snd ip of None \<Rightarrow> []
            | Some c \<Rightarrow> [Marker c (popup_kind_at n (fst ip))
                           (Some (or_else (airportNames tb (airport_code_at s p (fst ip)))
                                    (airport_code_at s p (fst ip))))
                           (airport_code_at s p (fst ip))])"
  by (simp add: fun_eq_iff place_marker_def Let_def split: option.splits)

lemma place_marker_basic_eq:
  "place_marker_basic s p n =
     (\<lambda>ip. case snd ip of None \<Rightarrow> []
            | Some c \<Rightarrow> [Marker c (popup_kind_at n (fst ip)) None (airport_code_at s p (fst ip))])"
  by (simp add: fun_eq_iff place_marker_basic_def Let_def split: option.splits)

text \<open>
  The equations that evaluate the model on the examples.
\<close>

lemmas example_defs =
  two_legs_def mid_missing_def backwards_def aa100_def gate_conflict_def second_search_def
  warned_then_searched_def one_search_def no_cheapest_def none_found_def
  page_def airports_def example_leg_def found_def not_found_def
  run_def step_def submit_def submit_basic_def on_search_response_def
  on_search_response_basic_def on_validation_response_def finish_def show_alert_def
  hasAnyRoute_def allFlightNumbers_def set_add_def showCollisionWarning_def
  displayAllResults_def displayAllResults_basic_def tab_click_def tab_click_basic_def
  path_of_def pane_content_def pane_content_basic_def leg_entry_def leg_entry_basic_def
  totalCost_def drawMapRoute_def drawMapRoute_basic_def route_points_def place_marker_def
  place_marker_basic_def popup_kind_at_def airport_code_at_def resolved_def fit_def
  or_else_def elapsed_def negative_def pane_total_def List.map_filter_def enumerate_eq_zip
  Let_def

text \<open>
  C9: in both scripts, drawing the route of a path and a start airport twice in a row
  leaves the page exactly as drawing it once does, and whatever the route layer held
  before a redraw has no effect on its outcome: each redraw starts from a cleared
  layer, so nothing accumulates.
\<close>

theorem drawMapRoute_idempotent:
  "drawMapRoute tb pth s (drawMapRoute tb pth s v) = drawMapRoute tb pth s v
   \<and> drawMapRoute_basic tb pth s (drawMapRoute_basic tb pth s v) = drawMapRoute_basic tb pth s v
   \<and> drawMapRoute tb pth s (v\<lparr>routeLayer := old\<rparr>) = drawMapRoute tb pth s v
   \<and> routeLayer (drawMapRoute tb pth s (drawMapRoute tb pth s v))
       = routeLayer (drawMapRoute tb pth s v)
   \<and> drawMapRoute_basic tb pth s (v\<lparr>routeLayer := old\<rparr>) = drawMapRoute_basic tb pth s v
   \<and> routeLayer (drawMapRoute_basic tb pth s (drawMapRoute_basic tb pth s v))
       = routeLayer (drawMapRoute_basic tb pth s v)"
  by (simp add: drawMapRoute_idem drawMapRoute_basic_idem drawMapRoute_clears
      drawMapRoute_basic_clears)

text \<open>
  C7, as the claim states it, fails when the point without coordinates is the start
  airport: the renderer then returns before drawing anything, although the destination
  LAX has coordinates.
\<close>

theorem missing_start_draws_nothing:
  "airportCoordinates airports ''XXX'' = None
   \<and> airportCoordinates airports ''LAX'' = Some (33, - 118)
   \<and> routeLayer (drawMapRoute airports (Some aa100) ''XXX'' (page ''XXX'' ''LAX'')) = []
   \<and> routeLayer (drawMapRoute_basic airports (Some aa100) ''XXX'' (page ''XXX'' ''LAX'')) = []"
  by (simp add: example_defs)

text \<open>
  C7, amended: when the start airport has no coordinates nothing is drawn. Otherwise
  the route layer holds one marker for each point that has coordinates, in the order of
  the route and classified and labelled by its index in the full point list, followed by
  one polyline through exactly those points; a leg destination without coordinates gets
  no marker and is dropped from the polyline, and drawing goes on.
\<close>

theorem drawMapRoute_drops_missing_points:
  "routeLayer (drawMapRoute tb (Some p) startNode v) =
     (case airportCoordinates tb startNode of
        None \<Rightarrow> []
      | Some c0 \<Rightarrow>
          (let points = route_points tb startNode p;
               present = filter (\<lambda>i. points ! i \<noteq> None) [0..<length points]
           in map (\<lambda>i. Marker (the (points ! i)) (popup_kind_at (length points) i)
                         (Some (or_else (airportNames tb (airport_code_at startNode p i))
                                  (airport_code_at startNode p i)))
                         (airport_code_at startNode p i)) present
              @ [Polyline (map (\<lambda>i. the (points ! i)) present)]))
   \<and> routeLayer (drawMapRoute_basic tb (Some p) startNode v) =
     (case airportCoordinates tb startNode of
        None \<Rightarrow> []
      | Some c0 \<Rightarrow>
          (let points = route_points tb startNode p;
               present = filter (\<lambda>i. points ! i \<noteq> None) [0..<length points]
           in map (\<lambda>i. Marker (the (points ! i)) (popup_kind_at (length points) i) None
                         (airport_code_at startNode p i)) present
              @ [Polyline (map (\<lambda>i. the (points ! i)) present)]))"
proof (cases "airportCoordinates tb startNode")
  case None
  then show ?thesis
    by (simp add: drawMapRoute_def drawMapRoute_basic_def)
next
  case (Some c0)
  define points where "points = route_points tb startNode p"
  have a: "concat (map (place_marker tb startNode p (length points)) (enumerate 0 points))
        = map (\<lambda>i. Marker (the (points ! i)) (popup_kind_at (length points) i)
                         (Some (or_else (airportNames tb (airport_code_at startNode p i))
                                  (airport_code_at startNode p i)))
                         (airport_code_at startNode p i))
            (filter (\<lambda>i. points ! i \<noteq> None) [0..<length points])"
    unfolding place_marker_eq
    using markers_by_index [of "\<lambda>i c. Marker c (popup_kind_at (length points) i)
                         (Some (or_else (airportNames tb (airport_code_at startNode p i))
                                  (airport_code_at startNode p i)))
                         (airport_code_at startNode p i)" 0 points]
    by simp
  have b: "concat (map (place_marker_basic startNode p (length points)) (enumerate 0 points))
        = map (\<lambda>i. Marker (the (points ! i)) (popup_kind_at (length points) i) None
                         (airport_code_at startNode p i))
            (filter (\<lambda>i. points ! i \<noteq> None) [0..<length points])"
    unfolding place_marker_basic_eq
    using markers_by_index [of "\<lambda>i c. Marker c (popup_kind_at (length points) i) None
                         (airport_code_at startNode p i)" 0 points]
    by simp
  from Some show ?thesis
    by (simp add: drawMapRoute_def drawMapRoute_basic_def Let_def points_def [symmetric]
        a b resolved_by_index)
qed

theorem drawMapRoute_drops_missing_points_witness:
  "airportCoordinates airports ''XXX'' = None
   \<and> routeLayer (drawMapRoute airports (Some mid_missing) ''JFK'' (page ''JFK'' ''LAX''))
     = [Marker (40, - 73) Origin (Some ''New York'') ''JFK'',
        Marker (33, - 118) Destination (Some ''Los Angeles'') ''LAX'',
        Polyline [(40, - 73), (33, - 118)]]
   \<and> routeLayer (drawMapRoute_basic airports (Some mid_missing) ''JFK'' (page ''JFK'' ''LAX''))
     = [Marker (40, - 73) Origin None ''JFK'',
        Marker (33, - 118) Destination None ''LAX'',
        Polyline [(40, - 73), (33, - 118)]]"
  using drawMapRoute_drops_missing_points [of airports mid_missing "''JFK''" "page ''JFK'' ''LAX''"]
  by (simp add: example_defs)

section \<open>Properties of the Result Formatter\<close>

lemma render_panes_only_panes:
  "render_panes tb s rs v = (v1, e) \<Longrightarrow> \<exists>m. v1 = v\<lparr>panes := m\<rparr>"
proof (induction rs arbitrary: v)
  case Nil
  then have "v1 = v\<lparr>panes := panes v\<rparr>" by simp
  then show ?case by blast
next
  case (Cons tr rs)
  show ?case
  proof (cases "pane_content tb s (snd tr)")
    case (Inl err)
    with Cons.prems have "v1 = v\<lparr>panes := panes v\<rparr>" by simp
    then show ?thesis by blast
  next
    case (Inr content)
    show ?thesis
    proof (cases "panes v (fst tr)")
      case None
      with Inr Cons.prems have "v1 = v\<lparr>panes := panes v\<rparr>" by simp
      then show ?thesis by blast
    next
      case (Some old)
      with Inr Cons.prems
      have "render_panes tb s rs (v\<lparr>panes := (panes v)(fst tr \<mapsto> content)\<rparr>) = (v1, e)" by simp
      from Cons.IH [OF this] obtain m where "v1 = v\<lparr>panes := (panes v)(fst tr \<mapsto> content)\<rparr>\<lparr>panes := m\<rparr>" by blast
      then have "v1 = v\<lparr>panes := m\<rparr>" by simp
      then show ?thesis by blast
    qed
  qed
qed

lemma render_panes_other:
  "render_panes tb s rs v = (v1, e) \<Longrightarrow> t \<notin> fst ` set rs \<Longrightarrow> panes v1 t = panes v t"
proof (induction rs arbitrary: v)
  case Nil
  then show ?case by simp
next
  case (Cons tr rs)
  show ?case
  proof (cases "pane_content tb s (snd tr)")
    case (Inl err)
    with Cons.prems show ?thesis by simp
  next
    case (Inr content)
    show ?thesis
    proof (cases "panes v (fst tr)")
      case None
      with Inr Cons.prems show ?thesis by simp
    next
      case (Some old)
      with Inr Cons.prems
      have r: "render_panes tb s rs (v\<lparr>panes := (panes v)(fst tr \<mapsto> content)\<rparr>) = (v1, e)" by simp
      from Cons.prems have "t \<notin> fst ` set rs" and "t \<noteq> fst tr" by auto
      with Cons.IH [OF r] show ?thesis by simp
    qed
  qed
qed

lemma render_panes_pane:
  "render_panes tb s rs v = (v1, None) \<Longrightarrow> distinct (map fst rs) \<Longrightarrow> (t, r) \<in> set rs
   \<Longrightarrow> \<exists>content. pane_content tb s r = Inr content \<and> panes v1 t = Some content"
proof (induction rs arbitrary: v)
  case Nil
  then show ?case by simp
next
  case (Cons tr rs)
  show ?case
  proof (cases "pane_content tb s (snd tr)")
    case (Inl err)
    with Cons.prems show ?thesis by simp
  next
    case (Inr content)
    show ?thesis
    proof (cases "panes v (fst tr)")
      case None
      with Inr Cons.prems show ?thesis by simp
    next
      case (Some old)
      with Inr Cons.prems
      have run: "render_panes tb s rs (v\<lparr>panes := (panes v)(fst tr \<mapsto> content)\<rparr>) = (v1, None)" by simp
      from Cons.prems have d: "distinct (map fst rs)" and nin: "fst tr \<notin> fst ` set rs" by auto
      show ?thesis
      proof (cases "(t, r) \<in> set rs")
        case True
        from Cons.IH [OF run d True] show ?thesis .
      next
        case False
        with Cons.prems have tr: "tr = (t, r)" by simp
        with nin have "t \<notin> fst ` set rs" by simp
        from render_panes_other [OF run this] tr have "panes v1 t = Some content" by simp
        with Inr tr show ?thesis by simp
      qed
    qed
  qed
qed

lemma render_panes_basic_only_panes:
  "render_panes_basic tb s rs v = (v1, e) \<Longrightarrow> \<exists>m. v1 = v\<lparr>panes := m\<rparr>"
proof (induction rs arbitrary: v)
  case Nil
  then have "v1 = v\<lparr>panes := panes v\<rparr>" by simp
  then show ?case by blast
next
  case (Cons tr rs)
  show ?case
  proof (cases "pane_content_basic tb s (snd tr)")
    case (Inl err)
    with Cons.prems have "v1 = v\<lparr>panes := panes v\<rparr>" by simp
    then show ?thesis by blast
  next
    case (Inr content)
    show ?thesis
    proof (cases "panes v (fst tr)")
      case None
      with Inr Cons.prems have "v1 = v\<lparr>panes := panes v\<rparr>" by simp
      then show ?thesis by blast
    next
      case (Some old)
      with Inr Cons.prems
      have "render_panes_basic tb s rs (v\<lparr>panes := (panes v)(fst tr \<mapsto> content)\<rparr>) = (v1, e)" by simp
      from Cons.IH [OF this] obtain m where "v1 = v\<lparr>panes := (panes v)(fst tr \<mapsto> content)\<rparr>\<lparr>panes := m\<rparr>" by blast
      then have "v1 = v\<lparr>panes := m\<rparr>" by simp
      then show ?thesis by blast
    qed
  qed
qed

lemma render_panes_basic_other:
  "render_panes_basic tb s rs v = (v1, e) \<Longrightarrow> t \<notin> fst ` set rs \<Longrightarrow> panes v1 t = panes v t"
proof (induction rs arbitrary: v)
  case Nil
  then show ?case by simp
next
  case (Cons tr rs)
  show ?case
  proof (cases "pane_content_basic tb s (snd tr)")
    case (Inl err)
    with Cons.prems show ?thesis by simp
  next
    case (Inr content)
    show ?thesis
    proof (cases "panes v (fst tr)")
      case None
      with Inr Cons.prems show ?thesis by simp
    next
      case (Some old)
      with Inr Cons.prems
      have r: "render_panes_basic tb s rs (v\<lparr>panes := (panes v)(fst tr \<mapsto> content)\<rparr>) = (v1, e)" by simp
      from Cons.prems have "t \<notin> fst ` set rs" and "t \<noteq> fst tr" by auto
      with Cons.IH [OF r] show ?thesis by simp
    qed
  qed
qed

lemma render_panes_basic_pane:
  "render_panes_basic tb s rs v = (v1, None) \<Longrightarrow> distinct (map fst rs) \<Longrightarrow> (t, r) \<in> set rs
   \<Longrightarrow> \<exists>content. pane_content_basic tb s r = Inr content \<and> panes v1 t = Some content"
proof (induction rs arbitrary: v)
  case Nil
  then show ?case by simp
next
  case (Cons tr rs)
  show ?case
  proof (cases "pane_content_basic tb s (snd tr)")
    case (Inl err)
    with Cons.prems show ?thesis by simp
  next
    case (Inr content)
    show ?thesis
    proof (cases "panes v (fst tr)")
      case None
      with Inr Cons.prems show ?thesis by simp
    next
      case (Some old)
      with Inr Cons.prems
      have run: "render_panes_basic tb s rs (v\<lparr>panes := (panes v)(fst tr \<mapsto> content)\<rparr>) = (v1, None)" by simp
      from Cons.prems have d: "distinct (map fst rs)" and nin: "fst tr \<notin> fst ` set rs" by auto
      show ?thesis
      proof (cases "(t, r) \<in> set rs")
        case True
        from Cons.IH [OF run d True] show ?thesis .
      next
        case False
        with Cons.prems have tr: "tr = (t, r)" by simp
        with nin have "t \<notin> fst ` set rs" by simp
        from render_panes_basic_other [OF run this] tr have "panes v1 t = Some content" by simp
        with Inr tr show ?thesis by simp
      qed
    qed
  qed
qed

lemma displayAllResults_ok:
  assumes "displayAllResults tb results s v = (v', None)"
  obtains v1 where "render_panes tb s results v = (v1, None)"
    and "''cheapest'' \<in> set (tabButtons v1)" and "v' = tab_click tb ''cheapest'' v1"
proof (cases "render_panes tb s results v")
  case (Pair v1 e)
  with assms show ?thesis
    by (cases e) (auto simp: displayAllResults_def intro: that split: if_splits)
qed

lemma displayAllResults_basic_ok:
  assumes "displayAllResults_basic tb results s v = (v', None)"
  obtains v1 where "render_panes_basic tb s results v = (v1, None)"
    and "''cheapest'' \<in> set (tabButtons v1)" and "v' = tab_click_basic tb ''cheapest'' v1"
proof (cases "render_panes_basic tb s results v")
  case (Pair v1 e)
  with assms show ?thesis
    by (cases e) (auto simp: displayAllResults_basic_def intro: that split: if_splits)
qed

lemma displayAllResults_pane:
  assumes "displayAllResults tb results s v = (v', None)" "distinct (map fst results)"
    "(t, r) \<in> set results"
  shows "\<exists>content. pane_content tb s r = Inr content \<and> panes v' t = Some content"
proof -
  from assms(1) obtain v1 where r: "render_panes tb s results v = (v1, None)"
    and v': "v' = tab_click tb ''cheapest'' v1"
    by (rule displayAllResults_ok)
  from render_panes_pane [OF r assms(2) assms(3)] v' show ?thesis
    by (simp add: tab_click_def Let_def drawMapRoute_fields)
qed

lemma displayAllResults_basic_pane:
  assumes "displayAllResults_basic tb results s v = (v', None)" "distinct (map fst results)"
    "(t, r) \<in> set results"
  shows "\<exists>content. pane_content_basic tb s r = Inr content \<and> panes v' t = Some content"
proof -
  from assms(1) obtain v1 where r: "render_panes_basic tb s results v = (v1, None)"
    and v': "v' = tab_click_basic tb ''cheapest'' v1"
    by (rule displayAllResults_basic_ok)
  from render_panes_basic_pane [OF r assms(2) assms(3)] v' show ?thesis
    by (simp add: tab_click_basic_def Let_def drawMapRoute_basic_fields)
qed

lemma pane_content_leg:
  assumes "pane_content tb s r = Inr content" "status r = ''found''" "path r = Some p"
    "\<not> negative (elapsed (arrival_utc (last p)) (departure_utc (hd p)))" "i < length p"
  shows "content ! Suc i = leg_entry tb s p (i, p ! i)" "length content = Suc (length p)"
  using assms
  by (auto simp: pane_content_def Let_def nth_enumerate_eq split: if_splits)

lemma pane_content_basic_leg:
  assumes "pane_content_basic tb s r = Inr content" "status r = ''found''" "path r = Some p"
    "i < length p"
  shows "content ! Suc i = leg_entry_basic tb s p (i, p ! i)" "length content = Suc (length p)"
  using assms
  by (auto simp: pane_content_basic_def Let_def nth_enumerate_eq split: if_splits)

lemma leg_entry_origin:
  "displayed_origin (leg_entry tb s p (i, l)) =
     (if negative (elapsed (arrival_utc l) (departure_utc l)) then None
      else Some (if i = 0 then s else destination (p ! (i - 1))))"
  by (simp add: leg_entry_def Let_def)

lemma leg_entry_basic_origin:
  "displayed_origin (leg_entry_basic tb s p (i, l)) =
     Some (if i = 0 then s else destination (p ! (i - 1)))"
  by (simp add: leg_entry_basic_def Let_def)

lemma totalCost_sum: "totalCost p = foldl (+) 0 (map cost p)"
  by (simp add: totalCost_def foldl_map)

lemma pane_content_total:
  assumes "pane_content tb s r = Inr content" "displayed_total content = Some c"
  shows "\<exists>p. path r = Some p \<and> c = ToFixed 2 (foldl (+) 0 (map cost p))"
  using assms
  by (auto simp: pane_content_def Let_def totalCost_sum split: if_splits option.splits)

lemma pane_content_basic_total:
  assumes "pane_content_basic tb s r = Inr content" "displayed_total content = Some c"
  shows "\<exists>p. path r = Some p \<and> c = ToFixed 2 (foldl (+) 0 (map cost p))"
  using assms
  by (auto simp: pane_content_basic_def Let_def totalCost_sum split: if_splits option.splits)

text \<open>
  In the controller with conflict support, a found route whose last arrival precedes
  its first departure is rendered as the data-error notice alone.
\<close>

lemma negative_total_renders_notice:
  assumes "displayAllResults tb results s v = (v', None)" "distinct (map fst results)"
    "(t, r) \<in> set results" "status r = ''found''" "path r = Some p"
    "negative (elapsed (arrival_utc (last p)) (departure_utc (hd p)))"
  shows "panes v' t = Some [RouteError]"
proof -
  from displayAllResults_pane [OF assms(1-3)] obtain content
    where c: "pane_content tb s r = Inr content" and p: "panes v' t = Some content" by blast
  from c assms(4-6) have "content = [RouteError]"
    by (auto simp: pane_content_def Let_def split: if_splits)
  with p show ?thesis by simp
qed

text \<open>
  C2: the basic script has no such check. For the route of the specification's example
  (start JFK, one leg to LAX arriving the day before it departs, cost 200) it renders the
  aggregate line with a negative duration and the entry of the leg, and shows the
  results panel.
\<close>

theorem basic_script_renders_negative_route:
  "negative (elapsed (arrival_utc (last backwards)) (departure_utc (hd backwards)))
   \<and> panes (on_search_response_basic airports ''JFK'' (SearchOk [(''cheapest'', found backwards)])
              (submit_basic (page ''JFK'' ''LAX''))) ''cheapest''
     = Some [Aggregate_basic (ToFixed 2 200) (Some (- 93600000)),
             LegEntry_basic \<lparr>airline_code = ''AA'', airline_title = ''American Airlines''\<rparr>
               ''AA1'' ''JFK'' ''LAX'']
   \<and> \<not> resultsHidden (on_search_response_basic airports ''JFK''
              (SearchOk [(''cheapest'', found backwards)]) (submit_basic (page ''JFK'' ''LAX'')))"
  by (simp add: example_defs)

text \<open>
  C4: in a pane rendered for a found route, the origin shown for leg \<open>i\<close> is the
  search start for \<open>i = 0\<close> and the destination of leg \<open>i - 1\<close> of the unfiltered path
  otherwise, whether or not leg \<open>i - 1\<close> is flagged invalid. The controller with
  conflict support shows no origin for a leg that is itself flagged invalid; the basic
  script shows one for every leg.
\<close>

theorem leg_origin_chained:
  assumes "distinct (map fst results)" "(t, r) \<in> set results" "status r = ''found''"
    "path r = Some p" "i < length p"
  shows "(snd (displayAllResults tb results s v) = None
          \<and> \<not> negative (elapsed (arrival_utc (last p)) (departure_utc (hd p)))
          \<longrightarrow> (\<exists>content. panes (fst (displayAllResults tb results s v)) t = Some content
                \<and> displayed_origin (content ! Suc i) =
                    (if negative (elapsed (arrival_utc (p ! i)) (departure_utc (p ! i))) then None
                     else Some (if i = 0 then s else destination (p ! (i - 1))))))
       \<and> (snd (displayAllResults_basic tb results s v) = None
          \<longrightarrow> (\<exists>content. panes (fst (displayAllResults_basic tb results s v)) t = Some content
                \<and> displayed_origin (content ! Suc i) =
                    Some (if i = 0 then s else destination (p ! (i - 1)))))"
proof (intro conjI impI)
  assume a: "snd (displayAllResults tb results s v) = None
          \<and> \<not> negative (elapsed (arrival_utc (last p)) (departure_utc (hd p)))"
  then have "displayAllResults tb results s v = (fst (displayAllResults tb results s v), None)"
    by (metis prod.collapse)
  from displayAllResults_pane [OF this assms(1,2)] obtain content
    where c: "pane_content tb s r = Inr content"
      and p: "panes (fst (displayAllResults tb results s v)) t = Some content" by blast
  from a have n: "\<not> negative (elapsed (arrival_utc (last p)) (departure_utc (hd p)))" by simp
  from pane_content_leg(1) [OF c assms(3,4) n assms(5)] p
  show "\<exists>content. panes (fst (displayAllResults tb results s v)) t = Some content
                \<and> displayed_origin (content ! Suc i) =
                    (if negative (elapsed (arrival_utc (p ! i)) (departure_utc (p ! i))) then None
                     else Some (if i = 0 then s else destination (p ! (i - 1))))"
    by (simp add: leg_entry_origin)
next
  assume "snd (displayAllResults_basic tb results s v) = None"
  then have "displayAllResults_basic tb results s v
             = (fst (displayAllResults_basic tb results s v), None)"
    by (metis prod.collapse)
  from displayAllResults_basic_pane [OF this assms(1,2)] obtain content
    where c: "pane_content_basic tb s r = Inr content"
      and p: "panes (fst (displayAllResults_basic tb results s v)) t = Some content" by blast
  from pane_content_basic_leg(1) [OF c assms(3,4,5)] p
  show "\<exists>content. panes (fst (displayAllResults_basic tb results s v)) t = Some content
                \<and> displayed_origin (content ! Suc i) =
                    Some (if i = 0 then s else destination (p ! (i - 1)))"
    by (simp add: leg_entry_basic_origin)
qed

theorem leg_origin_chained_witness:
  "distinct (map fst one_search) \<and> (''cheapest'', found two_legs) \<in> set one_search
   \<and> status (found two_legs) = ''found'' \<and> path (found two_legs) = Some two_legs
   \<and> 1 < length two_legs
   \<and> negative (elapsed (arrival_utc (two_legs ! 0)) (departure_utc (two_legs ! 0)))
   \<and> snd (displayAllResults airports one_search ''JFK'' (page ''JFK'' ''LAX'')) = None
   \<and> snd (displayAllResults_basic airports one_search ''JFK'' (page ''JFK'' ''LAX'')) = None
   \<and> (\<exists>content. panes (fst (displayAllResults airports one_search ''JFK'' (page ''JFK'' ''LAX'')))
                    ''cheapest'' = Some content
                 \<and> displayed_origin (content ! Suc 1) = Some ''ORD'')
   \<and> (\<exists>content. panes (fst (displayAllResults_basic airports one_search ''JFK''
                    (page ''JFK'' ''LAX''))) ''cheapest'' = Some content
                 \<and> displayed_origin (content ! Suc 1) = Some ''ORD'')"
proof -
  have h1: "distinct (map fst one_search)" by (simp add: one_search_def)
  have h2: "(''cheapest'', found two_legs) \<in> set one_search" by (simp add: one_search_def)
  have h3: "status (found two_legs) = ''found''" by (simp add: found_def)
  have h4: "path (found two_legs) = Some two_legs" by (simp add: found_def)
  have h5: "1 < length two_legs" by (simp add: two_legs_def)
  have h6: "negative (elapsed (arrival_utc (two_legs ! 0)) (departure_utc (two_legs ! 0)))"
    by (simp add: example_defs)
  have e1: "snd (displayAllResults airports one_search ''JFK'' (page ''JFK'' ''LAX'')) = None"
    by (simp add: example_defs)
  have e2: "\<not> negative (elapsed (arrival_utc (last two_legs)) (departure_utc (hd two_legs)))"
    by (simp add: example_defs)
  have e3: "snd (displayAllResults_basic airports one_search ''JFK'' (page ''JFK'' ''LAX'')) = None"
    by (simp add: example_defs)
  have n1: "\<not> negative (elapsed (arrival_utc (two_legs ! 1)) (departure_utc (two_legs ! 1)))"
    by (simp add: example_defs)
  have o': "Some (if (1::nat) = 0 then ''JFK'' else destination (two_legs ! (1 - 1))) = Some ''ORD''"
    by (simp add: example_defs)
  from leg_origin_chained [OF h1 h2 h3 h4 h5, of airports "''JFK''" "page ''JFK'' ''LAX''"]
    e1 e2 e3 n1
  have "(\<exists>content. panes (fst (displayAllResults airports one_search ''JFK'' (page ''JFK'' ''LAX'')))
                    ''cheapest'' = Some content
                 \<and> displayed_origin (content ! Suc 1) = Some ''ORD'')
   \<and> (\<exists>content. panes (fst (displayAllResults_basic airports one_search ''JFK''
                    (page ''JFK'' ''LAX''))) ''cheapest'' = Some content
                 \<and> displayed_origin (content ! Suc 1) = Some ''ORD'')"
    unfolding o' by simp
  with h1 h2 h3 h4 h5 h6 e1 e3 show ?thesis by blast
qed

text \<open>
  C5: whenever a pane is rendered with an aggregate line, the total cost on it is
  \<^verbatim>\<open>toFixed(2)\<close> of the sum, taken from 0 in flight order, of the costs of all legs of
  the route, legs flagged invalid included.
\<close>

theorem total_cost_sums_all_legs:
  assumes "distinct (map fst results)" "(t, r) \<in> set results"
  shows "(snd (displayAllResults tb results s v) = None
          \<and> pane_total (fst (displayAllResults tb results s v)) t = Some c
          \<longrightarrow> (\<exists>p. path r = Some p \<and> c = ToFixed 2 (foldl (+) 0 (map cost p))))
       \<and> (snd (displayAllResults_basic tb results s v) = None
          \<and> pane_total (fst (displayAllResults_basic tb results s v)) t = Some c
          \<longrightarrow> (\<exists>p. path r = Some p \<and> c = ToFixed 2 (foldl (+) 0 (map cost p))))"
proof (intro conjI impI)
  assume a: "snd (displayAllResults tb results s v) = None
          \<and> pane_total (fst (displayAllResults tb results s v)) t = Some c"
  then have "displayAllResults tb results s v = (fst (displayAllResults tb results s v), None)"
    by (metis prod.collapse)
  from displayAllResults_pane [OF this assms] obtain content
    where c: "pane_content tb s r = Inr content"
      and p: "panes (fst (displayAllResults tb results s v)) t = Some content" by blast
  from a p have "displayed_total content = Some c" by (simp add: pane_total_def)
  from pane_content_total [OF c this]
  show "\<exists>p. path r = Some p \<and> c = ToFixed 2 (foldl (+) 0 (map cost p))" .
next
  assume a: "snd (displayAllResults_basic tb results s v) = None
          \<and> pane_total (fst (displayAllResults_basic tb results s v)) t = Some c"
  then have "displayAllResults_basic tb results s v
             = (fst (displayAllResults_basic tb results s v), None)"
    by (metis prod.collapse)
  from displayAllResults_basic_pane [OF this assms] obtain content
    where c: "pane_content_basic tb s r = Inr content"
      and p: "panes (fst (displayAllResults_basic tb results s v)) t = Some content" by blast
  from a p have "displayed_total content = Some c" by (simp add: pane_total_def)
  from pane_content_basic_total [OF c this]
  show "\<exists>p. path r = Some p \<and> c = ToFixed 2 (foldl (+) 0 (map cost p))" .
qed

theorem total_cost_sums_all_legs_witness:
  "distinct (map fst one_search) \<and> (''cheapest'', found two_legs) \<in> set one_search
   \<and> snd (displayAllResults airports one_search ''JFK'' (page ''JFK'' ''LAX'')) = None
   \<and> pane_total (fst (displayAllResults airports one_search ''JFK'' (page ''JFK'' ''LAX'')))
        ''cheapest'' = Some (ToFixed 2 150)
   \<and> snd (displayAllResults_basic airports one_search ''JFK'' (page ''JFK'' ''LAX'')) = None
   \<and> pane_total (fst (displayAllResults_basic airports one_search ''JFK'' (page ''JFK'' ''LAX'')))
        ''cheapest'' = Some (ToFixed 2 150)
   \<and> negative (elapsed (arrival_utc (two_legs ! 0)) (departure_utc (two_legs ! 0)))
   \<and> (\<exists>p. path (found two_legs) = Some p \<and> ToFixed 2 (150::int) = ToFixed 2 (foldl (+) 0 (map cost p)))"
proof -
  have h1: "distinct (map fst one_search)" by (simp add: one_search_def)
  have h2: "(''cheapest'', found two_legs) \<in> set one_search" by (simp add: one_search_def)
  have h6: "negative (elapsed (arrival_utc (two_legs ! 0)) (departure_utc (two_legs ! 0)))"
    by (simp add: example_defs)
  have e1: "snd (displayAllResults airports one_search ''JFK'' (page ''JFK'' ''LAX'')) = None"
    by (simp add: example_defs)
  have e2: "pane_total (fst (displayAllResults airports one_search ''JFK'' (page ''JFK'' ''LAX'')))
        ''cheapest'' = Some (ToFixed 2 150)"
    by (simp add: example_defs)
  have e3: "snd (displayAllResults_basic airports one_search ''JFK'' (page ''JFK'' ''LAX'')) = None"
    by (simp add: example_defs)
  have e4: "pane_total (fst (displayAllResults_basic airports one_search ''JFK'' (page ''JFK'' ''LAX'')))
        ''cheapest'' = Some (ToFixed 2 150)"
    by (simp add: example_defs)
  from total_cost_sums_all_legs [OF h1 h2, of airports "''JFK''" "page ''JFK'' ''LAX''"
      "ToFixed 2 150"] e1 e2
  have "\<exists>p. path (found two_legs) = Some p \<and> ToFixed 2 (150::int) = ToFixed 2 (foldl (+) 0 (map cost p))"
    by blast
  with h1 h2 h6 e1 e2 e3 e4 show ?thesis by blast
qed

lemma default_tab_aux:
  assumes "displayAllResults tb results s v = (v', None)"
  shows "activeTab v' = Some ''cheapest''
       \<and> routeLayer v' = routeLayer (drawMapRoute tb (path_of (currentResults v) ''cheapest'') (startAirport v) v)
       \<and> mapFrame v' = mapFrame (drawMapRoute tb (path_of (currentResults v) ''cheapest'') (startAirport v) v)"
proof -
  from assms obtain v1 where r: "render_panes tb s results v = (v1, None)"
    and v': "v' = tab_click tb ''cheapest'' v1"
    by (rule displayAllResults_ok)
  from render_panes_only_panes [OF r] obtain m where v1: "v1 = v\<lparr>panes := m\<rparr>" by blast
  have f: "mapFrame (v\<lparr>panes := m, activeTab := Some ''cheapest''\<rparr>) = mapFrame v" by simp
  show ?thesis
    unfolding v' v1 tab_click_def Let_def
    using drawMapRoute_layer_indep [of tb "path_of (currentResults v) ''cheapest''" "startAirport v"
        "v\<lparr>panes := m, activeTab := Some ''cheapest''\<rparr>" v]
      drawMapRoute_frame_indep [OF f, of tb "path_of (currentResults v) ''cheapest''" "startAirport v"]
    by (simp add: drawMapRoute_fields)
qed

text \<open>
  C8, as the claim states it, fails when the result set has no cheapest entry: the
  first present key in priority order is fastest, yet the active tab is cheapest and
  nothing is drawn.
\<close>

theorem default_tab_without_cheapest:
  "map_of no_cheapest ''cheapest'' = None
   \<and> map_of no_cheapest ''fastest'' = Some (found aa100)
   \<and> snd (displayAllResults airports no_cheapest ''JFK''
            ((page ''JFK'' ''LAX'')\<lparr>currentResults := no_cheapest\<rparr>)) = None
   \<and> activeTab (fst (displayAllResults airports no_cheapest ''JFK''
            ((page ''JFK'' ''LAX'')\<lparr>currentResults := no_cheapest\<rparr>))) = Some ''cheapest''
   \<and> routeLayer (fst (displayAllResults airports no_cheapest ''JFK''
            ((page ''JFK'' ''LAX'')\<lparr>currentResults := no_cheapest\<rparr>))) = []"
  by (simp add: example_defs)

text \<open>
  C8, amended: after all panes are populated the active criterion is always cheapest,
  with no fallback to another key, and activating it redraws the map for the path of the
  cheapest entry of \<^verbatim>\<open>currentResults\<close> from the start airport read from the input.
\<close>

theorem default_tab_is_cheapest:
  assumes "snd (displayAllResults tb results s v) = None"
  shows "activeTab (fst (displayAllResults tb results s v)) = Some ''cheapest''
       \<and> routeLayer (fst (displayAllResults tb results s v))
           = routeLayer (drawMapRoute tb (path_of (currentResults v) ''cheapest'') (startAirport v) v)
       \<and> mapFrame (fst (displayAllResults tb results s v))
           = mapFrame (drawMapRoute tb (path_of (currentResults v) ''cheapest'') (startAirport v) v)"
proof -
  from assms
  have "displayAllResults tb results s v = (fst (displayAllResults tb results s v), None)"
    by (metis prod.collapse)
  then show ?thesis by (rule default_tab_aux)
qed

theorem default_tab_is_cheapest_witness:
  "snd (displayAllResults airports one_search ''JFK''
          ((page ''JFK'' ''LAX'')\<lparr>currentResults := one_search\<rparr>)) = None
   \<and> activeTab (fst (displayAllResults airports one_search ''JFK''
          ((page ''JFK'' ''LAX'')\<lparr>currentResults := one_search\<rparr>))) = Some ''cheapest''
   \<and> routeLayer (fst (displayAllResults airports one_search ''JFK''
          ((page ''JFK'' ''LAX'')\<lparr>currentResults := one_search\<rparr>)))
       = [Marker (40, - 73) Origin (Some ''New York'') ''JFK'',
          Marker (33, - 118) Destination (Some ''Los Angeles'') ''LAX'',
          Polyline [(40, - 73), (33, - 118)]]"
proof -
  have e: "snd (displayAllResults airports one_search ''JFK''
          ((page ''JFK'' ''LAX'')\<lparr>currentResults := one_search\<rparr>)) = None"
    by (simp add: example_defs)
  have d: "routeLayer (drawMapRoute airports
              (path_of (currentResults ((page ''JFK'' ''LAX'')\<lparr>currentResults := one_search\<rparr>))
                 ''cheapest'')
              (startAirport ((page ''JFK'' ''LAX'')\<lparr>currentResults := one_search\<rparr>))
              ((page ''JFK'' ''LAX'')\<lparr>currentResults := one_search\<rparr>))
       = [Marker (40, - 73) Origin (Some ''New York'') ''JFK'',
          Marker (33, - 118) Destination (Some ''Los Angeles'') ''LAX'',
          Polyline [(40, - 73), (33, - 118)]]"
    by (simp add: example_defs)
  from default_tab_is_cheapest [OF e] d e show ?thesis
    by (simp only:)
qed

section \<open>Properties of the View State Controller\<close>

lemma run_snoc: "run tb (es @ [e]) v = step tb e (run tb es v)"
  by (simp add: run_def)

lemma displayAllResults_warnings:
  "warnings (fst (displayAllResults tb rs s v)) = warnings v"
proof (cases "render_panes tb s rs v")
  case (Pair v1 e)
  from render_panes_only_panes [OF Pair] obtain m where "v1 = v\<lparr>panes := m\<rparr>" by blast
  with Pair show ?thesis
    by (cases e) (simp_all add: displayAllResults_def tab_click_def Let_def drawMapRoute_fields)
qed

lemma on_search_response_warnings:
  "warnings (fst (on_search_response tb s d resp v)) = warnings v"
proof (cases resp)
  case (SearchOk results)
  obtain v2 e where d: "displayAllResults tb results s (v\<lparr>currentResults := results\<rparr>) = (v2, e)"
    by (cases "displayAllResults tb results s (v\<lparr>currentResults := results\<rparr>)") blast
  from displayAllResults_warnings [of tb results s "v\<lparr>currentResults := results\<rparr>"] d
  have w: "warnings v2 = warnings v" by simp
  from SearchOk d w show ?thesis
    by (cases e) (simp_all add: on_search_response_def Let_def finish_def show_alert_def)
qed (simp_all add: on_search_response_def finish_def show_alert_def)

text \<open>
  In the controller with conflict support, a response without a found route ends the
  handler at once: the results are stored, the guidance alert is shown, the spinner is
  hidden, and the results panel and the panes are left as they were.
\<close>

lemma no_route_guidance:
  "\<not> hasAnyRoute results \<Longrightarrow>
   on_search_response tb s d (SearchOk results) v =
     (v\<lparr>currentResults := results, alerts := alerts v @ [NoRoutesFound s d],
        spinnerHidden := True\<rparr>, None)"
  by (simp add: on_search_response_def Let_def finish_def show_alert_def)

text \<open>
  C3: the basic script has no such guard. For a response in which cheapest, fastest and
  best are all not found it shows no alert, writes the no-route notice into each pane
  and shows the results panel.
\<close>

theorem basic_script_shows_panel_without_routes:
  "\<not> hasAnyRoute none_found
   \<and> \<not> resultsHidden (on_search_response_basic airports ''JFK'' (SearchOk none_found)
                        (submit_basic (page ''JFK'' ''LAX'')))
   \<and> alerts (on_search_response_basic airports ''JFK'' (SearchOk none_found)
                        (submit_basic (page ''JFK'' ''LAX''))) = []
   \<and> panes (on_search_response_basic airports ''JFK'' (SearchOk none_found)
                        (submit_basic (page ''JFK'' ''LAX''))) ''cheapest'' = Some [NoRoute_basic]
   \<and> panes (on_search_response_basic airports ''JFK'' (SearchOk none_found)
                        (submit_basic (page ''JFK'' ''LAX''))) ''fastest'' = Some [NoRoute_basic]
   \<and> panes (on_search_response_basic airports ''JFK'' (SearchOk none_found)
                        (submit_basic (page ''JFK'' ''LAX''))) ''best'' = Some [NoRoute_basic]"
  by (simp add: example_defs)

text \<open>
  C1, as the claim states it, fails: the validation response of the first search,
  arriving after the second search was submitted, inserts its banner and hides the
  spinner of the second search.
\<close>

theorem stale_validation_response_inserts_banner:
  "(1::nat) < generation second_search
   \<and> warnings (run airports second_search (page ''JFK'' ''LAX'')) = []
   \<and> warnings (run airports (second_search @ [ValidationResponse 1 gate_conflict])
                 (page ''JFK'' ''LAX''))
       = [\<lparr>banner_count = 1, banner_badges = [''AA100'']\<rparr>]
   \<and> \<not> spinnerHidden (run airports second_search (page ''JFK'' ''LAX''))
   \<and> spinnerHidden (run airports (second_search @ [ValidationResponse 1 gate_conflict])
                 (page ''JFK'' ''LAX''))"
  by (simp add: example_defs)

text \<open>
  C1, amended: a conflict-validation response is applied whatever the generation of
  the search it belongs to. With conflicts detected it inserts one banner ahead of the
  existing ones; in every case the spinner is hidden; nothing else in the view
  changes.
\<close>

theorem validation_response_applied_at_any_generation:
  "warnings (run tb (tr @ [ValidationResponse g resp]) v0) =
     (case resp of
        ValidationOk val \<Rightarrow>
          if conflicts_detected val
          then \<lparr>banner_count = length (conflicted_flights val),
                banner_badges = map flight (conflicted_flights val)\<rparr> # warnings (run tb tr v0)
          else warnings (run tb tr v0)
      | ValidationNotOk \<Rightarrow> warnings (run tb tr v0)
      | ValidationFailed \<Rightarrow> warnings (run tb tr v0))
   \<and> spinnerHidden (run tb (tr @ [ValidationResponse g resp]) v0)
   \<and> (run tb (tr @ [ValidationResponse g resp]) v0)
        \<lparr>warnings := warnings (run tb tr v0), spinnerHidden := spinnerHidden (run tb tr v0)\<rparr>
      = run tb tr v0"
  by (cases resp)
     (simp_all add: run_snoc step_def on_validation_response_def finish_def
        showCollisionWarning_def)

text \<open>
  C6, as the claim states it, fails for the banners: the banner of the first search is
  still in the results panel after the second search is submitted, and after its
  results are rendered and the panel is shown again.
\<close>

theorem earlier_banner_survives_new_search:
  "warnings (run airports [Submit, SearchResponse ''JFK'' ''LAX'' (SearchOk [(''cheapest'', found aa100)]),
      ValidationResponse 1 gate_conflict, Submit] (page ''JFK'' ''LAX''))
     = [\<lparr>banner_count = 1, banner_badges = [''AA100'']\<rparr>]
   \<and> warnings (run airports warned_then_searched (page ''JFK'' ''LAX''))
     = [\<lparr>banner_count = 1, banner_badges = [''AA100'']\<rparr>]
   \<and> \<not> resultsHidden (run airports warned_then_searched (page ''JFK'' ''LAX''))"
  by (simp add: example_defs)

text \<open>
  C6, amended: a submission hides the results panel and the conflict panel and clears
  the route layer before its request is sent, so that nothing drawn earlier has any
  effect on what follows; it removes no warning banner, and neither does the handling
  of its response.
\<close>

theorem submit_clears_map_keeps_banners:
  "routeLayer (submit v) = [] \<and> resultsHidden (submit v) \<and> collisionHidden (submit v)
   \<and> submit (v\<lparr>routeLayer := old\<rparr>) = submit v
   \<and> warnings (submit v) = warnings v
   \<and> warnings (fst (on_search_response tb s d resp (submit v))) = warnings v"
  by (simp add: on_search_response_warnings) (simp add: submit_def)

section \<open>Properties of the conflict report panel\<close>

text \<open>
  C10: the panel shows the first 20 failed-flight identifiers as badges, in their
  order, with a \<^verbatim>\<open>+N more\<close> indicator exactly when there are more than 20, \<open>N\<close>
  being the number left out; and it shows the first 10 conflict descriptions, in their
  order. The heading still counts all failed flights.
\<close>

theorem displayCollisionData_truncates:
  "badges (displayCollisionData d) = take 20 (failed_flights d)
   \<and> length (badges (displayCollisionData d)) \<le> 20
   \<and> more_indicator (displayCollisionData d)
       = (if 20 < length (failed_flights d) then Some (length (failed_flights d) - 20) else None)
   \<and> conflict_items (displayCollisionData d) = take 10 (conflicts d)
   \<and> length (conflict_items (displayCollisionData d)) \<le> 10
   \<and> heading_total (displayCollisionData d) = length (failed_flights d)"
  by (simp add: displayCollisionData_def)

end
